theory Spec2Isabelle
  imports Main
begin

section \<open>Data model of the device service\<close>

text \<open>
  The service under verification is \<open>DevicesService\<close> (devices.service.ts): task creation
  (\<open>createDeviceAssociationTask\<close>), the queue worker (\<open>associateDevicesWithGroup\<close>) and the
  task lookup (\<open>getDeviceAssociationTask\<close>).  Its collaborators (the DAOs, the SQS client,
  the Greengrass utility, shortid, the clock and the handlers of the chain) are injected;
  they appear here as the fields of an environment record.
\<close>

datatype task_status = Waiting | InProgress | Success | Failure

text \<open>
  \<open>ow\<close> raises an \<open>ArgumentError\<close>; the string names the value whose check failed.
  Every other failure is a plain \<open>Error\<close> carrying its message.
\<close>

datatype error = ArgumentError string | Error string

record DeviceItem =
  thingName :: string
  type :: string
  provisioningTemplate :: string
  status :: "task_status option"
  statusMessage :: "string option"

text \<open>
  A task summary over device representation \<open>'d\<close>: object references (\<open>nat\<close>) while task
  creation works on the caller's objects, plain values (\<open>DeviceItem\<close>) once the summary has
  been serialised or is owned by a single worker run.
\<close>

record 'd DeviceTaskSummary =
  taskId :: string
  groupName :: string
  status :: task_status
  createdAt :: int
  updatedAt :: int
  devices :: "'d list"

record GroupItem =
  id' :: string
  name :: string
  templateName :: string
  templateVersionNo :: nat
  taskStatus :: "task_status option"
  statusMessage :: "string option"

record TemplateItem =
  templateItemName :: string
  versionNo :: nat

record GroupInformation =
  Id :: string
  LatestVersion :: string

record GroupVersion =
  CoreDefinitionVersionArn :: string
  DeviceDefinitionVersionArn :: string

record CoreDefinitionVersion =
  coreDefinitionArn :: string
  cores :: "string list"

record DeviceDefinitionVersion =
  deviceDefinitionArn :: string
  ggDevices :: "string list"

text \<open>\<open>DeviceAssociationModel\<close>: the request object threaded through the handler chain.\<close>

record DeviceAssociationModel =
  taskInfo :: "DeviceItem DeviceTaskSummary"
  group :: GroupItem
  ggGroup :: GroupInformation
  ggCoreVersion :: CoreDefinitionVersion
  ggDeviceVersion :: DeviceDefinitionVersion
  ggGroupVersion :: GroupVersion
  template :: TemplateItem

text \<open>
  The argument of \<open>sqs.sendMessage\<close>.  \<open>MessageBody\<close> is \<open>JSON.stringify(taskInfo)\<close>, kept
  as the value that is serialised; \<open>messageType\<close> is the \<open>StringValue\<close> of the message
  attribute of that name.
\<close>

record SendMessageRequest =
  QueueUrl :: string
  MessageBody :: "DeviceItem DeviceTaskSummary"
  messageType :: string

datatype handler_name =
  GetThing1 | ExistingAssociation | ProvisionThing | GetThing2
| CoreConfig | GetPrincipal | CreateGroupVersion | SaveGroup

text \<open>Every call the service makes on a collaborator is recorded, in order, with its arguments.\<close>

datatype event =
  GroupsDaoGet string
| GetGroupInfo string
| GetGroupVersionInfo string string
| GetCoreInfo string
| GetDeviceInfo string
| TemplatesDaoGet string nat
| SaveDeviceAssociationTask "DeviceItem DeviceTaskSummary"
| SendMessage SendMessageRequest
| GetDeviceAssociationTask string string
| Handle handler_name DeviceAssociationModel

text \<open>
  Modelled from the spec: the handlers of the chain (handlers/*.ts) are not part of the
  sources at hand.  By the handler contract of the specification a handler, given the
  shared request, mutates it and then either calls the next handler (\<open>Continue\<close>), or stops
  propagation while still invoking SaveGroup (\<open>Halt\<close>), or throws (\<open>Raise\<close>, with the
  message of the error).  Each outcome carries the request as the handler left it.
\<close>

datatype outcome =
  Continue DeviceAssociationModel
| Halt DeviceAssociationModel
| Raise string DeviceAssociationModel

datatype lookup_slot = CoreSlot | DeviceSlot | TemplateSlot

record env =
  deviceAssociationQueue :: string
  groupsDao_get :: "string \<Rightarrow> error + GroupItem option"
  templatesDao_get :: "string \<Rightarrow> nat \<Rightarrow> error + TemplateItem option"
  ggUtils_getGroupInfo :: "string \<Rightarrow> error + GroupInformation"
  ggUtils_getGroupVersionInfo :: "string \<Rightarrow> string \<Rightarrow> error + GroupVersion"
  ggUtils_getCoreInfo :: "string \<Rightarrow> error + CoreDefinitionVersion"
  ggUtils_getDeviceInfo :: "string \<Rightarrow> error + DeviceDefinitionVersion"
  devicesDao_saveDeviceAssociationTask :: "DeviceItem DeviceTaskSummary \<Rightarrow> error option"
  devicesDao_getDeviceAssociationTask ::
    "string \<Rightarrow> string \<Rightarrow> error + DeviceItem DeviceTaskSummary option"
  sqs_sendMessage :: "SendMessageRequest \<Rightarrow> error option"
  shortid_generate :: "nat \<Rightarrow> string"
  Date_new :: "nat \<Rightarrow> int"
  settleTime :: "lookup_slot \<Rightarrow> nat"
  handlers :: "handler_name \<Rightarrow> DeviceAssociationModel \<Rightarrow> outcome"

text \<open>
  The state the service runs in: the device objects reachable from the caller (an object
  reference is an index into \<open>objects\<close>; a new object is appended), the log of collaborator
  calls, and how many ids and clock readings have been drawn so far (\<open>shortid_generate\<close> and
  \<open>Date_new\<close> answer by that count).
\<close>

record world =
  objects :: "DeviceItem list"
  log :: "event list"
  idsGenerated :: nat
  clockReads :: nat

definition emit :: "event \<Rightarrow> world \<Rightarrow> world" where
  "emit ev w = w\<lparr>log := log w @ [ev]\<rparr>"

definition emitted :: "world \<Rightarrow> world \<Rightarrow> event list" where
  "emitted w w' = drop (length (log w)) (log w')"

text \<open>The references a caller holds denote existing objects.\<close>

definition validRefs :: "world \<Rightarrow> nat list \<Rightarrow> bool" where
  "validRefs w items = (\<forall>a \<in> set items. a < length (objects w))"

section \<open>Task creation\<close>

text \<open>The loop over \<open>items\<close> with its three \<open>ow\<close> checks per device, in source order.\<close>

fun validateDevices :: "DeviceItem list \<Rightarrow> error option" where
  "validateDevices [] = None"
| "validateDevices (device # rest) =
     (if thingName device = [] then Some (ArgumentError ''thingName'')
      else if type device = [] then Some (ArgumentError ''type'')
      else if provisioningTemplate device = [] then Some (ArgumentError ''provisioningTemplate'')
      else validateDevices rest)"

definition getGroupItem :: "env \<Rightarrow> string \<Rightarrow> world \<Rightarrow> (error + GroupItem) \<times> world" where
  "getGroupItem e gname w =
     (let w1 = emit (GroupsDaoGet gname) w in
      case groupsDao_get e gname of
        Inl err \<Rightarrow> (Inl err, w1)
      | Inr None \<Rightarrow> (Inl (Error ''NOT_FOUND''), w1)
      | Inr (Some g) \<Rightarrow> (Inr g, w1))"

definition getGroupInfo :: "env \<Rightarrow> string \<Rightarrow> world \<Rightarrow> (error + GroupInformation) \<times> world" where
  "getGroupInfo e groupId w = (ggUtils_getGroupInfo e groupId, emit (GetGroupInfo groupId) w)"

text \<open>\<open>{...d, status:'Waiting'}\<close>: a new object with the fields of \<open>d\<close> and the status replaced.\<close>

definition waitingCopy :: "DeviceItem \<Rightarrow> DeviceItem" where
  "waitingCopy d = d\<lparr>DeviceItem.status := Some Waiting\<rparr>"

text \<open>
  \<open>items.map(d => ...)\<close>: one new object per element, appended to the objects in input
  order; the result lists the references of the new objects.
\<close>

definition mapWaiting :: "nat list \<Rightarrow> world \<Rightarrow> nat list \<times> world" where
  "mapWaiting items w =
     ([length (objects w) ..< length (objects w) + length items],
      w\<lparr>objects := objects w @ map (\<lambda>a. waitingCopy (objects w ! a)) items\<rparr>)"

text \<open>What \<open>JSON.stringify\<close> or a store write sees of a summary: the devices by value.\<close>

definition snapshot :: "world \<Rightarrow> nat DeviceTaskSummary \<Rightarrow> DeviceItem DeviceTaskSummary" where
  "snapshot w t =
     \<lparr>taskId = taskId t, groupName = groupName t, status = DeviceTaskSummary.status t,
      createdAt = createdAt t, updatedAt = updatedAt t,
      devices = map (\<lambda>a. objects w ! a) (devices t)\<rparr>"

definition saveDeviceAssociationTask ::
  "env \<Rightarrow> DeviceItem DeviceTaskSummary \<Rightarrow> world \<Rightarrow> error option \<times> world" where
  "saveDeviceAssociationTask e t w =
     (devicesDao_saveDeviceAssociationTask e t, emit (SaveDeviceAssociationTask t) w)"

definition sendMessage :: "env \<Rightarrow> SendMessageRequest \<Rightarrow> world \<Rightarrow> error option \<times> world" where
  "sendMessage e m w = (sqs_sendMessage e m, emit (SendMessage m) w)"

definition createDeviceAssociationTask ::
  "env \<Rightarrow> string \<Rightarrow> nat list \<Rightarrow> world \<Rightarrow> (error + nat DeviceTaskSummary) \<times> world" where
  "createDeviceAssociationTask e gname items w =
     (if gname = [] then (Inl (ArgumentError ''groupName''), w)
      else if items = [] then (Inl (ArgumentError ''Devices''), w)
      else case validateDevices (map (\<lambda>a. objects w ! a) items) of
        Some err \<Rightarrow> (Inl err, w)
      | None \<Rightarrow>
        (case getGroupItem e gname w of
           (Inl err, w1) \<Rightarrow> (Inl err, w1)
         | (Inr groupItem, w1) \<Rightarrow>
           (case getGroupInfo e (id' groupItem) w1 of
              (Inl err, w2) \<Rightarrow> (Inl err, w2)
            | (Inr _, w2) \<Rightarrow>
              (let tid = shortid_generate e (idsGenerated w2);
                   w3 = w2\<lparr>idsGenerated := idsGenerated w2 + 1\<rparr>;
                   created = Date_new e (clockReads w3);
                   updated = Date_new e (clockReads w3 + 1);
                   w4 = w3\<lparr>clockReads := clockReads w3 + 2\<rparr>;
                   (devs, w5) = mapWaiting items w4;
                   tinfo = \<lparr>taskId = tid, groupName = gname, status = Waiting,
                               createdAt = created, updatedAt = updated, devices = devs\<rparr>
               in case saveDeviceAssociationTask e (snapshot w5 tinfo) w5 of
                    (Some err, w6) \<Rightarrow> (Inl err, w6)
                  | (None, w6) \<Rightarrow>
                    (case sendMessage e
                            \<lparr>QueueUrl = deviceAssociationQueue e,
                             MessageBody = snapshot w6 tinfo,
                             messageType = ''DeviceTaskSummary''\<rparr> w6 of
                       (Some err, w7) \<Rightarrow> (Inl err, w7)
                     | (None, w7) \<Rightarrow> (Inr tinfo, w7))))))"

section \<open>Task lookup\<close>

definition getDeviceAssociationTask ::
  "env \<Rightarrow> string \<Rightarrow> string \<Rightarrow> world \<Rightarrow> (error + DeviceItem DeviceTaskSummary option) \<times> world" where
  "getDeviceAssociationTask e groupId tid w =
     (if tid = [] then (Inl (ArgumentError ''taskId''), w)
      else (devicesDao_getDeviceAssociationTask e groupId tid,
            emit (GetDeviceAssociationTask groupId tid) w))"

section \<open>The queue worker\<close>

definition getGroupVersionInfo ::
  "env \<Rightarrow> string \<Rightarrow> string \<Rightarrow> world \<Rightarrow> (error + GroupVersion) \<times> world" where
  "getGroupVersionInfo e groupId versionId w =
     (ggUtils_getGroupVersionInfo e groupId versionId,
      emit (GetGroupVersionInfo groupId versionId) w)"

definition getCoreInfo :: "env \<Rightarrow> string \<Rightarrow> world \<Rightarrow> (error + CoreDefinitionVersion) \<times> world" where
  "getCoreInfo e arn w = (ggUtils_getCoreInfo e arn, emit (GetCoreInfo arn) w)"

definition getDeviceInfo ::
  "env \<Rightarrow> string \<Rightarrow> world \<Rightarrow> (error + DeviceDefinitionVersion) \<times> world" where
  "getDeviceInfo e arn w = (ggUtils_getDeviceInfo e arn, emit (GetDeviceInfo arn) w)"

definition getTemplateItem ::
  "env \<Rightarrow> string \<Rightarrow> nat \<Rightarrow> world \<Rightarrow> (error + TemplateItem) \<times> world" where
  "getTemplateItem e tname vno w =
     (let w1 = emit (TemplatesDaoGet tname vno) w in
      case templatesDao_get e tname vno of
        Inl err \<Rightarrow> (Inl err, w1)
      | Inr None \<Rightarrow> (Inl (Error ''NOT_FOUND''), w1)
      | Inr (Some item) \<Rightarrow> (Inr item, w1))"

text \<open>
  \<open>Promise.all\<close> over the three pending lookups.  All three calls have been issued before
  it is awaited; it fulfils with the three values when none rejects, and otherwise rejects
  with the reason of the promise that rejects first.  Which one is first is decided by the
  collaborators' timing (\<open>settleTime\<close>); on equal times the later array position loses.
  (\<open>projr\<close> is applied only where no lookup rejected, that is, to an \<open>Inr\<close>.)
\<close>

definition rejection :: "error + 'a \<Rightarrow> error option" where
  "rejection r = (case r of Inl err \<Rightarrow> Some err | Inr _ \<Rightarrow> None)"

fun firstRejection ::
  "(lookup_slot \<Rightarrow> nat) \<Rightarrow> (lookup_slot \<times> error option) list \<Rightarrow> (lookup_slot \<times> error) option" where
  "firstRejection t [] = None"
| "firstRejection t ((s, None) # rest) = firstRejection t rest"
| "firstRejection t ((s, Some err) # rest) =
     (case firstRejection t rest of
        None \<Rightarrow> Some (s, err)
      | Some (s', err') \<Rightarrow> if t s' < t s then Some (s', err') else Some (s, err))"

definition promiseAll3 ::
  "(lookup_slot \<Rightarrow> nat) \<Rightarrow> error + 'a \<Rightarrow> error + 'b \<Rightarrow> error + 'c \<Rightarrow> error + ('a \<times> 'b \<times> 'c)" where
  "promiseAll3 t r1 r2 r3 =
     (case firstRejection t
             [(CoreSlot, rejection r1), (DeviceSlot, rejection r2), (TemplateSlot, rejection r3)] of
        Some (_, err) \<Rightarrow> Inl err
      | None \<Rightarrow> Inr (projr r1, projr r2, projr r3))"

text \<open>\<open>taskInfo.status = 'InProgress'; taskInfo.devices.forEach(d => d.status = 'InProgress')\<close>\<close>

definition markInProgress :: "DeviceItem DeviceTaskSummary \<Rightarrow> DeviceItem DeviceTaskSummary" where
  "markInProgress t =
     t\<lparr>status := InProgress,
       devices := map (\<lambda>d. d\<lparr>DeviceItem.status := Some InProgress\<rparr>) (devices t)\<rparr>"

text \<open>
  Lines 210 to 231 of \<open>associateDevicesWithGroup\<close>: the checks on the task, the lookups,
  the marking and the construction of the request.  (\<open>ow.object.nonEmpty\<close> on the task holds
  of every summary, which has its six keys.)
\<close>

definition prepareRequest ::
  "env \<Rightarrow> DeviceItem DeviceTaskSummary \<Rightarrow> world \<Rightarrow> (error + DeviceAssociationModel) \<times> world" where
  "prepareRequest e t w =
     (if taskId t = [] then (Inl (ArgumentError ''taskId''), w)
      else if groupName t = [] then (Inl (ArgumentError ''groupName''), w)
      else if length (devices t) < 1 then (Inl (ArgumentError ''Devices''), w)
      else case getGroupItem e (groupName t) w of
        (Inl err, w1) \<Rightarrow> (Inl err, w1)
      | (Inr grp, w1) \<Rightarrow>
        (case getGroupInfo e (id' grp) w1 of
           (Inl err, w2) \<Rightarrow> (Inl err, w2)
         | (Inr ggGrp, w2) \<Rightarrow>
           (case getGroupVersionInfo e (Id ggGrp) (LatestVersion ggGrp) w2 of
              (Inl err, w3) \<Rightarrow> (Inl err, w3)
            | (Inr ggGrpVersion, w3) \<Rightarrow>
              (let (rc, w4) = getCoreInfo e (CoreDefinitionVersionArn ggGrpVersion) w3;
                   (rd, w5) = getDeviceInfo e (DeviceDefinitionVersionArn ggGrpVersion) w4;
                   (rt, w6) = getTemplateItem e (templateName grp) (templateVersionNo grp) w5
               in case promiseAll3 (settleTime e) rc rd rt of
                    Inl err \<Rightarrow> (Inl err, w6)
                  | Inr (ggCoreV, ggDeviceV, tmpl) \<Rightarrow>
                    (Inr \<lparr>taskInfo = markInProgress t, group = grp, ggGroup = ggGrp,
                          ggCoreVersion = ggCoreV, ggDeviceVersion = ggDeviceV,
                          ggGroupVersion = ggGrpVersion, template = tmpl\<rparr>, w6)))))"

text \<open>
  Modelled from the spec: \<open>handle\<close> of the SaveGroup handler (handlers/saveGroup.handler.ts
  is not part of the sources at hand).  It is the terminal step: it has no next handler,
  so whatever it does with the request it either returns or throws.
\<close>

definition saveGroupHandler_handle ::
  "env \<Rightarrow> DeviceAssociationModel \<Rightarrow> world \<Rightarrow> string option \<times> DeviceAssociationModel \<times> world" where
  "saveGroupHandler_handle e r w =
     (let w1 = emit (Handle SaveGroup r) w in
      case handlers e SaveGroup r of
        Continue r' \<Rightarrow> (None, r', w1)
      | Halt r' \<Rightarrow> (None, r', w1)
      | Raise msg r' \<Rightarrow> (Some msg, r', w1))"

text \<open>
  Modelled from the spec: \<open>handle\<close> of a handler followed by the handlers \<open>hs\<close> and then
  SaveGroup (the handler base class is not part of the sources at hand).  The result is the
  message of the error thrown, if any, and the request as the handlers left it.
\<close>

fun handleChain ::
  "env \<Rightarrow> handler_name list \<Rightarrow> DeviceAssociationModel \<Rightarrow> world
     \<Rightarrow> string option \<times> DeviceAssociationModel \<times> world" where
  "handleChain e [] r w = saveGroupHandler_handle e r w"
| "handleChain e (h # hs) r w =
     (let w1 = emit (Handle h r) w in
      case handlers e h r of
        Continue r' \<Rightarrow> handleChain e hs r' w1
      | Halt r' \<Rightarrow> saveGroupHandler_handle e r' w1
      | Raise msg r' \<Rightarrow> (Some msg, r', w1))"

text \<open>
  The chain as the constructor links it: \<open>getThingHandler1\<close> first, then the handlers below
  in this order, \<open>saveGroupHandler\<close> last.
\<close>

definition chainAfterGetThing1 :: "handler_name list" where
  "chainAfterGetThing1 =
     [ExistingAssociation, ProvisionThing, GetThing2, CoreConfig, GetPrincipal, CreateGroupVersion]"

definition getThingHandler1_handle ::
  "env \<Rightarrow> DeviceAssociationModel \<Rightarrow> world \<Rightarrow> string option \<times> DeviceAssociationModel \<times> world" where
  "getThingHandler1_handle e r w = handleChain e (GetThing1 # chainAfterGetThing1) r w"

text \<open>The guarded assignment of the \<open>catch\<close> block.\<close>

definition recordFailure :: "string \<Rightarrow> DeviceAssociationModel \<Rightarrow> DeviceAssociationModel" where
  "recordFailure msg r =
     (if taskStatus (group r) \<noteq> Some Failure
      then r\<lparr>group := (group r)\<lparr>taskStatus := Some Failure, GroupItem.statusMessage := Some msg\<rparr>\<rparr>
      else r)"

text \<open>
  Lines 233 to 242: the \<open>try\<close> around the chain and the \<open>catch\<close>.  The call of
  \<open>saveGroupHandler.handle\<close> in the \<open>catch\<close> is not awaited: it is issued, and what it
  returns or throws is dropped.
\<close>

definition executeChain :: "env \<Rightarrow> DeviceAssociationModel \<Rightarrow> world \<Rightarrow> (error + unit) \<times> world" where
  "executeChain e request w =
     (case getThingHandler1_handle e request w of
        (None, _, w1) \<Rightarrow> (Inr (), w1)
      | (Some msg, request', w1) \<Rightarrow>
        (case saveGroupHandler_handle e (recordFailure msg request') w1 of
           (_, _, w2) \<Rightarrow> (Inr (), w2)))"

definition associateDevicesWithGroup ::
  "env \<Rightarrow> DeviceItem DeviceTaskSummary \<Rightarrow> world \<Rightarrow> (error + unit) \<times> world" where
  "associateDevicesWithGroup e t w =
     (case prepareRequest e t w of
        (Inl err, w1) \<Rightarrow> (Inl err, w1)
      | (Inr request, w1) \<Rightarrow> executeChain e request w1)"

text \<open>The handler invocations among some events, in order, and those of SaveGroup.\<close>

fun handled :: "event list \<Rightarrow> (handler_name \<times> DeviceAssociationModel) list" where
  "handled [] = []"
| "handled (Handle h r # evs) = (h, r) # handled evs"
| "handled (_ # evs) = handled evs"


definition requestOf :: "outcome \<Rightarrow> DeviceAssociationModel" where
  "requestOf out = (case out of Continue r \<Rightarrow> r | Halt r \<Rightarrow> r | Raise _ r \<Rightarrow> r)"


text \<open>
  The summary that \<open>createDeviceAssociationTask\<close> builds (lines 179 to 188) when entered in
  world \<open>w\<close>, once with its devices as the references of the new objects and once by value.
\<close>

definition newTask :: "env \<Rightarrow> string \<Rightarrow> nat list \<Rightarrow> world \<Rightarrow> nat DeviceTaskSummary" where
  "newTask e gname items w =
     \<lparr>taskId = shortid_generate e (idsGenerated w), groupName = gname, status = Waiting,
      createdAt = Date_new e (clockReads w), updatedAt = Date_new e (clockReads w + 1),
      devices = [length (objects w) ..< length (objects w) + length items]\<rparr>"

definition newTaskValue ::
  "env \<Rightarrow> string \<Rightarrow> nat list \<Rightarrow> world \<Rightarrow> DeviceItem DeviceTaskSummary" where
  "newTaskValue e gname items w =
     \<lparr>taskId = shortid_generate e (idsGenerated w), groupName = gname, status = Waiting,
      createdAt = Date_new e (clockReads w), updatedAt = Date_new e (clockReads w + 1),
      devices = map (\<lambda>a. waitingCopy (objects w ! a)) items\<rparr>"

section \<open>A concrete deployment\<close>

text \<open>One group, one device object, collaborators that all succeed; used to run the service.\<close>

definition group1 :: GroupItem where
  "group1 = \<lparr>id' = ''gg-1'', name = ''group-1'', templateName = ''tmpl'',
             templateVersionNo = 1, taskStatus = None, statusMessage = None\<rparr>"

definition device1 :: DeviceItem where
  "device1 = \<lparr>thingName = ''t1'', type = ''core'', provisioningTemplate = ''tmpl-a'',
              status = Some Failure, statusMessage = None\<rparr>"

definition env1 :: env where
  "env1 = \<lparr>deviceAssociationQueue = ''queue-url'',
           groupsDao_get = (\<lambda>n. if n = ''group-1'' then Inr (Some group1) else Inr None),
           templatesDao_get = (\<lambda>n v. Inr (Some \<lparr>templateItemName = n, versionNo = v\<rparr>)),
           ggUtils_getGroupInfo = (\<lambda>i. Inr \<lparr>Id = i, LatestVersion = ''v1''\<rparr>),
           ggUtils_getGroupVersionInfo =
             (\<lambda>i v. Inr \<lparr>CoreDefinitionVersionArn = ''core-arn-1'',
                         DeviceDefinitionVersionArn = ''device-arn-1''\<rparr>),
           ggUtils_getCoreInfo = (\<lambda>a. Inr \<lparr>coreDefinitionArn = a, cores = []\<rparr>),
           ggUtils_getDeviceInfo = (\<lambda>a. Inr \<lparr>deviceDefinitionArn = a, ggDevices = []\<rparr>),
           devicesDao_saveDeviceAssociationTask = (\<lambda>t. None),
           devicesDao_getDeviceAssociationTask = (\<lambda>g t. Inr None),
           sqs_sendMessage = (\<lambda>m. None),
           shortid_generate = (\<lambda>n. ''id-1''),
           Date_new = (\<lambda>n. 1000 + int n),
           settleTime = (\<lambda>s. 0),
           handlers = (\<lambda>h r. Continue r)\<rparr>"

definition env1_storeDown :: env where
  "env1_storeDown =
     env1\<lparr>devicesDao_saveDeviceAssociationTask := (\<lambda>t. Some (Error ''store unavailable''))\<rparr>"

definition world1 :: world where
  "world1 = \<lparr>objects = [device1], log = [], idsGenerated = 0, clockReads = 0\<rparr>"

definition task1 :: "DeviceItem DeviceTaskSummary" where
  "task1 = \<lparr>taskId = ''id-1'', groupName = ''group-1'', status = Waiting,
            createdAt = 1000, updatedAt = 1001,
            devices = [device1\<lparr>DeviceItem.status := Some Waiting\<rparr>]\<rparr>"

text \<open>What the worker builds and calls in this deployment, and deployments that fail.\<close>

definition request1 :: DeviceAssociationModel where
  "request1 =
     \<lparr>taskInfo = markInProgress task1, group = group1,
      ggGroup = \<lparr>Id = ''gg-1'', LatestVersion = ''v1''\<rparr>,
      ggCoreVersion = \<lparr>coreDefinitionArn = ''core-arn-1'', cores = []\<rparr>,
      ggDeviceVersion = \<lparr>deviceDefinitionArn = ''device-arn-1'', ggDevices = []\<rparr>,
      ggGroupVersion = \<lparr>CoreDefinitionVersionArn = ''core-arn-1'',
                        DeviceDefinitionVersionArn = ''device-arn-1''\<rparr>,
      template = \<lparr>templateItemName = ''tmpl'', versionNo = 1\<rparr>\<rparr>"

definition lookups1 :: "event list" where
  "lookups1 =
     [GroupsDaoGet ''group-1'', GetGroupInfo ''gg-1'', GetGroupVersionInfo ''gg-1'' ''v1'',
      GetCoreInfo ''core-arn-1'', GetDeviceInfo ''device-arn-1'', TemplatesDaoGet ''tmpl'' 1]"


definition alreadyAssociated :: "DeviceAssociationModel \<Rightarrow> DeviceAssociationModel" where
  "alreadyAssociated r =
     r\<lparr>group := (group r)\<lparr>taskStatus := Some Failure,
                            GroupItem.statusMessage := Some ''already associated''\<rparr>\<rparr>"

definition env1_twoFailures :: env where
  "env1_twoFailures =
     env1\<lparr>handlers := (\<lambda>h r. if h = ExistingAssociation then Continue (alreadyAssociated r)
                              else if h = ProvisionThing then Raise ''provisioning failed'' r
                              else if h = SaveGroup then Raise ''store unavailable'' r
                              else Continue r)\<rparr>"



definition device2 :: DeviceItem where
  "device2 = \<lparr>thingName = ''t2'', type = ''device'', provisioningTemplate = ''tmpl-b'',
              status = None, statusMessage = None\<rparr>"

definition task2 :: "DeviceItem DeviceTaskSummary" where
  "task2 = \<lparr>taskId = ''id-2'', groupName = ''group-1'', status = Waiting,
            createdAt = 2000, updatedAt = 2001,
            devices = [device1\<lparr>DeviceItem.status := Some Waiting\<rparr>, device2]\<rparr>"

definition request2 :: DeviceAssociationModel where
  "request2 = request1\<lparr>taskInfo := markInProgress task2\<rparr>"

definition env1_version2 :: env where
  "env1_version2 =
     env1\<lparr>ggUtils_getGroupVersionInfo :=
            (\<lambda>i v. Inr \<lparr>CoreDefinitionVersionArn = ''core-arn-2'',
                        DeviceDefinitionVersionArn = ''device-arn-2''\<rparr>)\<rparr>"

definition env1_versionDown :: env where
  "env1_versionDown =
     env1\<lparr>ggUtils_getGroupVersionInfo := (\<lambda>i v. Inl (Error ''version unavailable''))\<rparr>"

section \<open>Validation\<close>

lemma validateDevices_ArgumentError:
  "validateDevices ds = Some err \<Longrightarrow> \<exists>label. err = ArgumentError label"
  by (induction ds) (auto split: if_splits)

lemma validateDevices_rejects:
  "d \<in> set ds \<Longrightarrow> thingName d = [] \<or> type d = [] \<or> provisioningTemplate d = []
     \<Longrightarrow> validateDevices ds \<noteq> None"
  by (induction ds) auto

lemma validateDevices_accepts:
  "\<forall>d \<in> set ds. thingName d \<noteq> [] \<and> type d \<noteq> [] \<and> provisioningTemplate d \<noteq> []
     \<Longrightarrow> validateDevices ds = None"
  by (induction ds) auto

text \<open>
  C4: when the group name is empty, or there are no items, or some item has an empty
  thingName, type or provisioningTemplate, \<open>createDeviceAssociationTask\<close> raises a validation
  error and leaves the world as it was: no call on the store, the queue or any other
  collaborator is logged, and no object is created or changed.
\<close>

theorem createDeviceAssociationTask_validation:
  assumes "gname = [] \<or> items = [] \<or>
           (\<exists>a \<in> set items. thingName (objects w ! a) = [] \<or> type (objects w ! a) = []
                              \<or> provisioningTemplate (objects w ! a) = [])"
  shows "\<exists>label. createDeviceAssociationTask e gname items w = (Inl (ArgumentError label), w)"
proof (cases "gname = [] \<or> items = []")
  case True
  then show ?thesis by (auto simp: createDeviceAssociationTask_def)
next
  case False
  with assms obtain a where a: "a \<in> set items"
    "thingName (objects w ! a) = [] \<or> type (objects w ! a) = []
       \<or> provisioningTemplate (objects w ! a) = []" by blast
  then have "validateDevices (map (\<lambda>a. objects w ! a) items) \<noteq> None"
    by (intro validateDevices_rejects[of "objects w ! a"]) auto
  then obtain err where err: "validateDevices (map (\<lambda>a. objects w ! a) items) = Some err"
    by blast
  then obtain label where "err = ArgumentError label"
    using validateDevices_ArgumentError by blast
  with err False show ?thesis by (simp add: createDeviceAssociationTask_def)
qed

theorem createDeviceAssociationTask_validation_witness:
  "([] :: string) = [] \<and>
   (\<exists>label. createDeviceAssociationTask env1 [] [] world1 = (Inl (ArgumentError label), world1))"
  using createDeviceAssociationTask_validation [of "[]" "[]" world1 env1] by simp

section \<open>Task creation: what is written, and when\<close>

lemma emit_simps [simp]:
  "log (emit ev w) = log w @ [ev]"
  "objects (emit ev w) = objects w"
  "idsGenerated (emit ev w) = idsGenerated w"
  "clockReads (emit ev w) = clockReads w"
  by (simp_all add: emit_def)

lemma emitted_self [simp]: "emitted w w = []"
  by (simp add: emitted_def)

lemma map_new_objects:
  "map ((!) (xs @ map f items)) [length xs..<length xs + length items] = map f items"
  by (rule nth_equalityI) (simp_all add: nth_append)

lemma create_valid:
  assumes "gname \<noteq> []" "items \<noteq> []" "validateDevices (map (\<lambda>a. objects w ! a) items) = None"
    and "groupsDao_get e gname = Inr (Some grp)" "ggUtils_getGroupInfo e (id' grp) = Inr info"
  shows "createDeviceAssociationTask e gname items w =
    (let w5 = w\<lparr>objects := objects w @ map (\<lambda>a. waitingCopy (objects w ! a)) items,
                log := log w @ [GroupsDaoGet gname, GetGroupInfo (id' grp)],
                idsGenerated := idsGenerated w + 1, clockReads := clockReads w + 2\<rparr>;
         t = newTaskValue e gname items w;
         m = \<lparr>QueueUrl = deviceAssociationQueue e, MessageBody = t, messageType = ''DeviceTaskSummary''\<rparr>
     in case devicesDao_saveDeviceAssociationTask e t of
          Some err \<Rightarrow> (Inl err, w5\<lparr>log := log w5 @ [SaveDeviceAssociationTask t]\<rparr>)
        | None \<Rightarrow> (case sqs_sendMessage e m of
             Some err \<Rightarrow> (Inl err, w5\<lparr>log := log w5 @ [SaveDeviceAssociationTask t, SendMessage m]\<rparr>)
           | None \<Rightarrow> (Inr (newTask e gname items w), w5\<lparr>log := log w5 @ [SaveDeviceAssociationTask t, SendMessage m]\<rparr>)))"
  using assms
  by (simp add: createDeviceAssociationTask_def getGroupItem_def getGroupInfo_def Let_def mapWaiting_def
      saveDeviceAssociationTask_def sendMessage_def snapshot_def newTask_def newTaskValue_def emit_def map_new_objects
      split: option.splits)

lemma create_early_exit:
  assumes "\<not> (gname \<noteq> [] \<and> items \<noteq> [] \<and> validateDevices (map (\<lambda>a. objects w ! a) items) = None
              \<and> (\<exists>grp info. groupsDao_get e gname = Inr (Some grp)
                    \<and> ggUtils_getGroupInfo e (id' grp) = Inr info))"
  shows "objects (snd (createDeviceAssociationTask e gname items w)) = objects w
         \<and> (\<exists>err. fst (createDeviceAssociationTask e gname items w) = Inl err)"
  using assms
  by (auto simp: createDeviceAssociationTask_def getGroupItem_def getGroupInfo_def Let_def
           split: option.splits sum.splits)

lemma create_emitted_cases:
  fixes e gname items w
  defines "evs \<equiv> emitted w (snd (createDeviceAssociationTask e gname items w))"
    and "t \<equiv> newTaskValue e gname items w"
  defines "m \<equiv> \<lparr>QueueUrl = deviceAssociationQueue e, MessageBody = t,
                  messageType = ''DeviceTaskSummary''\<rparr>"
  shows "evs = [] \<or> evs = [GroupsDaoGet gname]
      \<or> (\<exists>i. evs = [GroupsDaoGet gname, GetGroupInfo i])
      \<or> (\<exists>i. evs = [GroupsDaoGet gname, GetGroupInfo i, SaveDeviceAssociationTask t]
           \<and> devicesDao_saveDeviceAssociationTask e t \<noteq> None)
      \<or> (\<exists>i. evs = [GroupsDaoGet gname, GetGroupInfo i, SaveDeviceAssociationTask t, SendMessage m]
           \<and> devicesDao_saveDeviceAssociationTask e t = None)"
proof (cases "gname \<noteq> [] \<and> items \<noteq> [] \<and> validateDevices (map (\<lambda>a. objects w ! a) items) = None")
  case False
  then have "snd (createDeviceAssociationTask e gname items w) = w"
    by (auto simp: createDeviceAssociationTask_def)
  then have "evs = []" by (simp add: evs_def)
  then show ?thesis by simp
next
  case valid: True
  show ?thesis
  proof (cases "\<exists>grp. groupsDao_get e gname = Inr (Some grp)")
    case False
    with valid have "snd (createDeviceAssociationTask e gname items w) = emit (GroupsDaoGet gname) w"
      by (simp add: createDeviceAssociationTask_def getGroupItem_def Let_def
               split: sum.splits option.splits)
    then have "evs = [GroupsDaoGet gname]" by (simp add: evs_def emitted_def)
    then show ?thesis by simp
  next
    case True
    then obtain grp where grp: "groupsDao_get e gname = Inr (Some grp)" by blast
    show ?thesis
    proof (cases "ggUtils_getGroupInfo e (id' grp)")
      case (Inl err)
      with grp valid have "snd (createDeviceAssociationTask e gname items w)
           = emit (GetGroupInfo (id' grp)) (emit (GroupsDaoGet gname) w)"
        by (simp add: createDeviceAssociationTask_def getGroupItem_def getGroupInfo_def Let_def)
      then have "evs = [GroupsDaoGet gname, GetGroupInfo (id' grp)]"
        by (simp add: evs_def emitted_def)
      then show ?thesis by simp
    next
      case (Inr info)
      from valid grp Inr
      have cv: "gname \<noteq> []" "items \<noteq> []" "validateDevices (map (\<lambda>a. objects w ! a) items) = None"
        "groupsDao_get e gname = Inr (Some grp)" "ggUtils_getGroupInfo e (id' grp) = Inr info"
        by simp_all
      have "(evs = [GroupsDaoGet gname, GetGroupInfo (id' grp), SaveDeviceAssociationTask t]
               \<and> devicesDao_saveDeviceAssociationTask e t \<noteq> None)
          \<or> (evs = [GroupsDaoGet gname, GetGroupInfo (id' grp), SaveDeviceAssociationTask t, SendMessage m]
               \<and> devicesDao_saveDeviceAssociationTask e t = None)"
        by (simp add: evs_def t_def m_def create_valid[OF cv] emitted_def Let_def split: option.splits)
      then show ?thesis by blast
    qed
  qed
qed

lemma create_env1:
  "createDeviceAssociationTask env1 ''group-1'' [0] world1 =
     (Inr \<lparr>taskId = ''id-1'', groupName = ''group-1'', status = Waiting,
           createdAt = 1000, updatedAt = 1001, devices = [1]\<rparr>,
      \<lparr>objects = [device1, device1\<lparr>DeviceItem.status := Some Waiting\<rparr>],
       log = [GroupsDaoGet ''group-1'', GetGroupInfo ''gg-1'', SaveDeviceAssociationTask task1,
              SendMessage \<lparr>QueueUrl = ''queue-url'', MessageBody = task1,
                           messageType = ''DeviceTaskSummary''\<rparr>],
       idsGenerated = 1, clockReads = 2\<rparr>)"
  by (simp add: createDeviceAssociationTask_def getGroupItem_def getGroupInfo_def Let_def
        mapWaiting_def saveDeviceAssociationTask_def sendMessage_def snapshot_def emit_def
        env1_def world1_def task1_def group1_def device1_def waitingCopy_def)

lemma create_env1_storeDown:
  "createDeviceAssociationTask env1_storeDown ''group-1'' [0] world1 =
     (Inl (Error ''store unavailable''),
      \<lparr>objects = [device1, device1\<lparr>DeviceItem.status := Some Waiting\<rparr>],
       log = [GroupsDaoGet ''group-1'', GetGroupInfo ''gg-1'', SaveDeviceAssociationTask task1],
       idsGenerated = 1, clockReads = 2\<rparr>)"
  by (simp add: createDeviceAssociationTask_def getGroupItem_def getGroupInfo_def Let_def
        mapWaiting_def saveDeviceAssociationTask_def sendMessage_def snapshot_def emit_def
        env1_def env1_storeDown_def world1_def task1_def group1_def device1_def waitingCopy_def)

text \<open>
  C2: among the collaborator calls of one \<open>createDeviceAssociationTask\<close>, a queue publish
  is preceded by a store write of the very task in the message body, and that write
  succeeded; if a store write fails, nothing is published; and on a valid input whose group
  resolves and is confirmed by the control plane the store write does take place.
\<close>

theorem createDeviceAssociationTask_persists_before_publish:
  fixes e gname items w
  defines "evs \<equiv> emitted w (snd (createDeviceAssociationTask e gname items w))"
  shows "(evs = pre @ SendMessage m # post \<longrightarrow>
            SaveDeviceAssociationTask (MessageBody m) \<in> set pre
          \<and> devicesDao_saveDeviceAssociationTask e (MessageBody m) = None)
       \<and> (SaveDeviceAssociationTask t \<in> set evs \<and> devicesDao_saveDeviceAssociationTask e t \<noteq> None \<longrightarrow>
            (\<forall>m'. SendMessage m' \<notin> set evs))
       \<and> (gname \<noteq> [] \<and> items \<noteq> [] 
           \<and> (\<forall>a \<in> set items. thingName (objects w ! a) \<noteq> [] \<and> type (objects w ! a) \<noteq> []
                              \<and> provisioningTemplate (objects w ! a) \<noteq> [])
           \<and> groupsDao_get e gname = Inr (Some grp) \<and> ggUtils_getGroupInfo e (id' grp) = Inr info \<longrightarrow>
            (\<exists>t'. SaveDeviceAssociationTask t' \<in> set evs))"
proof (intro conjI impI)
  obtain i t0 m0 where c: "MessageBody m0 = t0"
     "evs = [] \<or> evs = [GroupsDaoGet gname] \<or> evs = [GroupsDaoGet gname, GetGroupInfo i]
      \<or> (evs = [GroupsDaoGet gname, GetGroupInfo i, SaveDeviceAssociationTask t0]
           \<and> devicesDao_saveDeviceAssociationTask e t0 \<noteq> None)
      \<or> (evs = [GroupsDaoGet gname, GetGroupInfo i, SaveDeviceAssociationTask t0, SendMessage m0]
           \<and> devicesDao_saveDeviceAssociationTask e t0 = None)"
  proof -
    let ?t = "newTaskValue e gname items w"
    let ?m = "\<lparr>QueueUrl = deviceAssociationQueue e, MessageBody = ?t,
                  messageType = ''DeviceTaskSummary''\<rparr>"
    have mb: "MessageBody ?m = ?t" by simp
    from create_emitted_cases[where e=e and gname=gname and items=items and w=w]
    consider "evs = []" | "evs = [GroupsDaoGet gname]"
      | i where "evs = [GroupsDaoGet gname, GetGroupInfo i]"
      | i where "evs = [GroupsDaoGet gname, GetGroupInfo i, SaveDeviceAssociationTask ?t]"
           "devicesDao_saveDeviceAssociationTask e ?t \<noteq> None"
      | i where "evs = [GroupsDaoGet gname, GetGroupInfo i, SaveDeviceAssociationTask ?t, SendMessage ?m]"
           "devicesDao_saveDeviceAssociationTask e ?t = None"
      unfolding evs_def by blast
    then show ?thesis
    proof cases
      case 1 then show ?thesis using that[OF mb, of "[]"] by simp
    next
      case 2 then show ?thesis using that[OF mb, of "[]"] by simp
    next
      case (3 i) then show ?thesis using that[OF mb, of i] by simp
    next
      case (4 i) then show ?thesis using that[OF mb, of i] by simp
    next
      case (5 i) then show ?thesis using that[OF mb, of i] by simp
    qed
  qed
  {
    assume a: "evs = pre @ SendMessage m # post"
    then have "SendMessage m \<in> set evs" by simp
    with c(2) have full: "evs = [GroupsDaoGet gname, GetGroupInfo i, SaveDeviceAssociationTask t0, SendMessage m0]"
      "devicesDao_saveDeviceAssociationTask e t0 = None" by auto
    with a have "pre @ SendMessage m # post = [GroupsDaoGet gname, GetGroupInfo i, SaveDeviceAssociationTask t0] @ SendMessage m0 # []"
      by simp
    then have "pre = [GroupsDaoGet gname, GetGroupInfo i, SaveDeviceAssociationTask t0] \<and> m = m0"
      by (auto simp: append_eq_append_conv2 append_eq_Cons_conv Cons_eq_append_conv)
    with c(1) full show "SaveDeviceAssociationTask (MessageBody m) \<in> set pre" 
      "devicesDao_saveDeviceAssociationTask e (MessageBody m) = None" by auto
  }
  {
    assume "SaveDeviceAssociationTask t \<in> set evs \<and> devicesDao_saveDeviceAssociationTask e t \<noteq> None"
    with c(2) show "\<forall>m'. SendMessage m' \<notin> set evs" by auto
  }
  {
    assume v: "gname \<noteq> [] \<and> items \<noteq> [] 
           \<and> (\<forall>a \<in> set items. thingName (objects w ! a) \<noteq> [] \<and> type (objects w ! a) \<noteq> []
                              \<and> provisioningTemplate (objects w ! a) \<noteq> [])
           \<and> groupsDao_get e gname = Inr (Some grp) \<and> ggUtils_getGroupInfo e (id' grp) = Inr info"
    then have "validateDevices (map (\<lambda>a. objects w ! a) items) = None"
      by (intro validateDevices_accepts) auto
    with v show "\<exists>t'. SaveDeviceAssociationTask t' \<in> set evs"
      unfolding evs_def
      by (simp add: create_valid[where grp=grp and info=info] emitted_def Let_def split: option.splits)
  }
qed

theorem createDeviceAssociationTask_persists_before_publish_witness:
  "emitted world1 (snd (createDeviceAssociationTask env1 ''group-1'' [0] world1))
     = [GroupsDaoGet ''group-1'', GetGroupInfo ''gg-1'', SaveDeviceAssociationTask task1]
       @ SendMessage \<lparr>QueueUrl = ''queue-url'', MessageBody = task1,
                      messageType = ''DeviceTaskSummary''\<rparr> # []
   \<and> SaveDeviceAssociationTask task1
       \<in> set [GroupsDaoGet ''group-1'', GetGroupInfo ''gg-1'', SaveDeviceAssociationTask task1]
   \<and> devicesDao_saveDeviceAssociationTask env1 task1 = None
   \<and> SaveDeviceAssociationTask task1
       \<in> set (emitted world1 (snd (createDeviceAssociationTask env1_storeDown ''group-1'' [0] world1)))
   \<and> devicesDao_saveDeviceAssociationTask env1_storeDown task1 \<noteq> None
   \<and> (\<forall>m'. SendMessage m'
         \<notin> set (emitted world1 (snd (createDeviceAssociationTask env1_storeDown ''group-1'' [0] world1))))"
proof -
  let ?pre = "[GroupsDaoGet ''group-1'', GetGroupInfo ''gg-1'', SaveDeviceAssociationTask task1]"
  let ?m = "\<lparr>QueueUrl = ''queue-url'', MessageBody = task1, messageType = ''DeviceTaskSummary''\<rparr>"
  have l0: "log world1 = []" by (simp add: world1_def)
  have run: "emitted world1 (snd (createDeviceAssociationTask env1 ''group-1'' [0] world1))
               = ?pre @ SendMessage ?m # []"
    by (simp add: create_env1 emitted_def l0)
  have down: "SaveDeviceAssociationTask task1
       \<in> set (emitted world1 (snd (createDeviceAssociationTask env1_storeDown ''group-1'' [0] world1)))
     \<and> devicesDao_saveDeviceAssociationTask env1_storeDown task1 \<noteq> None"
    by (simp add: create_env1_storeDown emitted_def l0) (simp add: env1_storeDown_def)
  from createDeviceAssociationTask_persists_before_publish
         [where w = world1 and e = env1 and gname = "''group-1''" and items = "[0]"
            and pre = ?pre and m = ?m and post = "[]"] run
  have a: "SaveDeviceAssociationTask (MessageBody ?m) \<in> set ?pre
           \<and> devicesDao_saveDeviceAssociationTask env1 (MessageBody ?m) = None"
    by blast
  from createDeviceAssociationTask_persists_before_publish
         [where w = world1 and e = env1_storeDown and gname = "''group-1''" and items = "[0]"
            and t = task1] down
  have b: "\<forall>m'. SendMessage m'
         \<notin> set (emitted world1 (snd (createDeviceAssociationTask env1_storeDown ''group-1'' [0] world1)))"
    by blast
  from a have a': "SaveDeviceAssociationTask task1 \<in> set ?pre
           \<and> devicesDao_saveDeviceAssociationTask env1 task1 = None" by simp
  show ?thesis using run down a' b by blast
qed

text \<open>
  C5 (as stated): the claim promises a summary on every valid input whose group resolves
  and is confirmed.  With the store unavailable the call raises the store's error instead.
\<close>

theorem createDeviceAssociationTask_store_failure_counterexample:
  "''group-1'' \<noteq> [] \<and> [0::nat] \<noteq> []
   \<and> thingName (objects world1 ! 0) \<noteq> [] \<and> type (objects world1 ! 0) \<noteq> []
   \<and> provisioningTemplate (objects world1 ! 0) \<noteq> []
   \<and> groupsDao_get env1_storeDown ''group-1'' = Inr (Some group1)
   \<and> ggUtils_getGroupInfo env1_storeDown (id' group1) = Inr \<lparr>Id = ''gg-1'', LatestVersion = ''v1''\<rparr>
   \<and> fst (createDeviceAssociationTask env1_storeDown ''group-1'' [0] world1)
       = Inl (Error ''store unavailable'')"
  by (simp add: world1_def device1_def env1_def env1_storeDown_def group1_def
        createDeviceAssociationTask_def getGroupItem_def getGroupInfo_def Let_def
        mapWaiting_def saveDeviceAssociationTask_def sendMessage_def snapshot_def emit_def)

text \<open>
  C5 (amended): on a valid input whose group resolves and is confirmed by the control
  plane, \<open>createDeviceAssociationTask\<close> either returns a summary with status Waiting, the
  id just drawn from shortid, createdAt and updatedAt read from the clock during the call,
  and one device per input item, in input order, carrying the item's thingName, type and
  provisioningTemplate with status Waiting; or it raises the error of the store write or of
  the queue publish, which is then the last call made.
\<close>

theorem createDeviceAssociationTask_summary:
  assumes "gname \<noteq> []" and "items \<noteq> []"
      and "\<forall>a \<in> set items. thingName (objects w ! a) \<noteq> [] \<and> type (objects w ! a) \<noteq> []
                              \<and> provisioningTemplate (objects w ! a) \<noteq> []"
      and "groupsDao_get e gname = Inr (Some grp)"
      and "ggUtils_getGroupInfo e (id' grp) = Inr info"
      and "createDeviceAssociationTask e gname items w = (res, w')"
  shows "(\<exists>t. res = Inr t
            \<and> DeviceTaskSummary.status t = Waiting
            \<and> taskId t = shortid_generate e (idsGenerated w)
            \<and> idsGenerated w' = idsGenerated w + 1
            \<and> createdAt t = Date_new e (clockReads w)
            \<and> updatedAt t = Date_new e (clockReads w + 1)
            \<and> length (devices t) = length items
            \<and> (\<forall>i < length items.
                  thingName (objects w' ! (devices t ! i)) = thingName (objects w ! (items ! i))
                \<and> type (objects w' ! (devices t ! i)) = type (objects w ! (items ! i))
                \<and> provisioningTemplate (objects w' ! (devices t ! i))
                    = provisioningTemplate (objects w ! (items ! i))
                \<and> DeviceItem.status (objects w' ! (devices t ! i)) = Some Waiting))
       \<or> (\<exists>err t. res = Inl err \<and> last (log w') = SaveDeviceAssociationTask t
              \<and> devicesDao_saveDeviceAssociationTask e t = Some err)
       \<or> (\<exists>err m. res = Inl err \<and> last (log w') = SendMessage m
              \<and> sqs_sendMessage e m = Some err)"
proof -
  have "validateDevices (map (\<lambda>a. objects w ! a) items) = None"
    using assms(3) by (intro validateDevices_accepts) auto
  with assms
  have cv: "gname \<noteq> []" "items \<noteq> []" "validateDevices (map (\<lambda>a. objects w ! a) items) = None"
    "groupsDao_get e gname = Inr (Some grp)" "ggUtils_getGroupInfo e (id' grp) = Inr info"
    by simp_all
  show ?thesis
  proof (cases "devicesDao_saveDeviceAssociationTask e (newTaskValue e gname items w)")
    case (Some err)
    then show ?thesis using assms(6)
      by (auto simp: create_valid[OF cv] Let_def)
  next
    case None
    show ?thesis
    proof (cases "sqs_sendMessage e \<lparr>QueueUrl = deviceAssociationQueue e,
                     MessageBody = newTaskValue e gname items w, messageType = ''DeviceTaskSummary''\<rparr>")
      case (Some err)
      then show ?thesis using assms(6) None
        by (auto simp: create_valid[OF cv] Let_def)
    next
      case n2: None
      from assms(6) None n2 have r: "res = Inr (newTask e gname items w)"
        and o: "objects w' = objects w @ map (\<lambda>a. waitingCopy (objects w ! a)) items"
        and g: "idsGenerated w' = idsGenerated w + 1"
        by (auto simp: create_valid[OF cv] Let_def)
      have "\<forall>i < length items. objects w' ! (devices (newTask e gname items w) ! i)
               = waitingCopy (objects w ! (items ! i))"
        by (simp add: newTask_def o nth_append)
      then show ?thesis using r g
        by (simp add: newTask_def waitingCopy_def)
    qed
  qed
qed

theorem createDeviceAssociationTask_summary_witness:
  "''group-1'' \<noteq> [] \<and> [0::nat] \<noteq> []
   \<and> thingName (objects world1 ! 0) \<noteq> [] \<and> type (objects world1 ! 0) \<noteq> []
   \<and> provisioningTemplate (objects world1 ! 0) \<noteq> []
   \<and> groupsDao_get env1 ''group-1'' = Inr (Some group1)
   \<and> ggUtils_getGroupInfo env1 (id' group1) = Inr \<lparr>Id = ''gg-1'', LatestVersion = ''v1''\<rparr>
   \<and> (\<exists>t. fst (createDeviceAssociationTask env1 ''group-1'' [0] world1) = Inr t
          \<and> DeviceTaskSummary.status t = Waiting
          \<and> taskId t = shortid_generate env1 (idsGenerated world1)
          \<and> length (devices t) = length [0::nat])"
proof -
  have h: "''group-1'' \<noteq> []" "[0::nat] \<noteq> []"
    "\<forall>a \<in> set [0::nat]. thingName (objects world1 ! a) \<noteq> [] \<and> type (objects world1 ! a) \<noteq> []
                              \<and> provisioningTemplate (objects world1 ! a) \<noteq> []"
    "groupsDao_get env1 ''group-1'' = Inr (Some group1)"
    "ggUtils_getGroupInfo env1 (id' group1) = Inr \<lparr>Id = ''gg-1'', LatestVersion = ''v1''\<rparr>"
    by (simp_all add: world1_def device1_def env1_def group1_def)
  obtain res w' where run: "createDeviceAssociationTask env1 ''group-1'' [0] world1 = (res, w')"
    by (cases "createDeviceAssociationTask env1 ''group-1'' [0] world1")
  from run have ok: "\<exists>t. res = Inr t" by (auto simp: create_env1)
  from createDeviceAssociationTask_summary [OF h run] ok
  have "\<exists>t. res = Inr t \<and> DeviceTaskSummary.status t = Waiting
          \<and> taskId t = shortid_generate env1 (idsGenerated world1)
          \<and> length (devices t) = length [0::nat]"
    by auto
  then show ?thesis using h by (simp add: run)
qed

text \<open>
  C10: \<open>createDeviceAssociationTask\<close> does not mutate its items.  Every object that existed
  before the call, the items among them, is unchanged after it.  The devices of a returned
  summary are new objects, none of them an input item, and the i-th is the i-th item with
  its status replaced by Waiting.
\<close>

theorem createDeviceAssociationTask_items_untouched:
  assumes "validRefs w items"
      and "createDeviceAssociationTask e gname items w = (res, w')"
  shows "take (length (objects w)) (objects w') = objects w
       \<and> (\<forall>a \<in> set items. objects w' ! a = objects w ! a)
       \<and> (\<forall>t. res = Inr t \<longrightarrow>
             length (devices t) = length items
           \<and> (\<forall>i < length items.
                 devices t ! i \<notin> set items
               \<and> length (objects w) \<le> devices t ! i
               \<and> objects w' ! (devices t ! i)
                   = (objects w ! (items ! i))\<lparr>DeviceItem.status := Some Waiting\<rparr>))"
proof (cases "gname \<noteq> [] \<and> items \<noteq> [] \<and> validateDevices (map (\<lambda>a. objects w ! a) items) = None
              \<and> (\<exists>grp info. groupsDao_get e gname = Inr (Some grp)
                    \<and> ggUtils_getGroupInfo e (id' grp) = Inr info)")
  case False
  from create_early_exit[OF False] assms(2) have "objects w' = objects w" "\<exists>err. res = Inl err"
    by auto
  then show ?thesis by auto
next
  case True
  then obtain grp info where cv: "gname \<noteq> []" "items \<noteq> []"
    "validateDevices (map (\<lambda>a. objects w ! a) items) = None"
    "groupsDao_get e gname = Inr (Some grp)" "ggUtils_getGroupInfo e (id' grp) = Inr info"
    by blast
  have objs: "objects w' = objects w @ map (\<lambda>a. waitingCopy (objects w ! a)) items"
    using assms(2) by (auto simp: create_valid[OF cv] Let_def split: option.splits)
  have res: "res = Inr t \<Longrightarrow> devices t = [length (objects w) ..< length (objects w) + length items]" for t
    using assms(2) by (auto simp: create_valid[OF cv] Let_def newTask_def split: option.splits)
  have lt: "a \<in> set items \<Longrightarrow> a < length (objects w)" for a
    using assms(1) by (simp add: validRefs_def)
  show ?thesis
  proof (intro conjI allI impI ballI)
    show "take (length (objects w)) (objects w') = objects w" by (simp add: objs)
    show "objects w' ! a = objects w ! a" if "a \<in> set items" for a
      using lt[OF that] by (simp add: objs nth_append)
    fix t assume r: "res = Inr t"
    show "length (devices t) = length items" by (simp add: res[OF r])
    fix i assume i: "i < length items"
    show "devices t ! i \<notin> set items" using lt i by (auto simp: res[OF r])
    show "length (objects w) \<le> devices t ! i" using i by (simp add: res[OF r])
    show "objects w' ! (devices t ! i) = (objects w ! (items ! i))\<lparr>DeviceItem.status := Some Waiting\<rparr>"
      using i by (simp add: res[OF r] objs nth_append waitingCopy_def)
  qed
qed

theorem createDeviceAssociationTask_items_untouched_witness:
  "validRefs world1 [0]
   \<and> objects (snd (createDeviceAssociationTask env1 ''group-1'' [0] world1)) ! 0 = objects world1 ! 0
   \<and> objects (snd (createDeviceAssociationTask env1 ''group-1'' [0] world1)) ! 1
       = (objects world1 ! 0)\<lparr>DeviceItem.status := Some Waiting\<rparr>"
proof -
  have v: "validRefs world1 [0]" by (simp add: validRefs_def world1_def)
  obtain res w' where run: "createDeviceAssociationTask env1 ''group-1'' [0] world1 = (res, w')"
    by (cases "createDeviceAssociationTask env1 ''group-1'' [0] world1")
  from run have res: "res = Inr \<lparr>taskId = ''id-1'', groupName = ''group-1'', status = Waiting,
           createdAt = 1000, updatedAt = 1001, devices = [1]\<rparr>"
    by (simp add: create_env1)
  note th = createDeviceAssociationTask_items_untouched [OF v run]
  from th have a: "objects w' ! 0 = objects world1 ! 0" by simp
  from th res have "\<forall>i < length [0::nat]. objects w' ! ([1] ! i)
                   = (objects world1 ! ([0] ! i))\<lparr>DeviceItem.status := Some Waiting\<rparr>"
    by simp
  then have b: "objects w' ! 1 = (objects world1 ! 0)\<lparr>DeviceItem.status := Some Waiting\<rparr>"
    by simp
  show ?thesis using v a b by (simp add: run)
qed

section \<open>Task lookup\<close>

text \<open>
  C9: \<open>getDeviceAssociationTask\<close> checks the task id only.  Called with an empty group id
  and a non-empty task id it raises no validation error of its own: it calls the store
  lookup with the empty group id and that task id, and returns what the store answers.
\<close>

theorem getDeviceAssociationTask_checks_taskId_only:
  "tid \<noteq> [] \<Longrightarrow>
     getDeviceAssociationTask e [] tid w =
       (devicesDao_getDeviceAssociationTask e [] tid, emit (GetDeviceAssociationTask [] tid) w)"
  by (simp add: getDeviceAssociationTask_def)

theorem getDeviceAssociationTask_checks_taskId_only_witness:
  "''task-1'' \<noteq> [] \<and>
   getDeviceAssociationTask env1 [] ''task-1'' world1 =
     (Inr None, world1\<lparr>log := [GetDeviceAssociationTask [] ''task-1'']\<rparr>)"
  using getDeviceAssociationTask_checks_taskId_only [of "''task-1''" env1 world1]
  by (simp add: env1_def world1_def emit_def)

section \<open>The queue worker: events of a run\<close>

lemma handled_append: "handled (xs @ ys) = handled xs @ handled ys"
  by (induction xs rule: handled.induct) simp_all


lemma promiseAll3_fulfils: "promiseAll3 t (Inr a) (Inr b) (Inr c) = Inr (a, b, c)"
  by (simp add: promiseAll3_def rejection_def)

lemma promiseAll3_rejects:
  "promiseAll3 t r1 r2 r3 = Inl err \<Longrightarrow> r1 = Inl err \<or> r2 = Inl err \<or> r3 = Inl err"
  by (cases r1; cases r2; cases r3) (auto simp: promiseAll3_def rejection_def split: if_splits)

lemma promiseAll3_some_rejection:
  "r1 = Inl e1 \<or> r2 = Inl e2 \<or> r3 = Inl e3 \<Longrightarrow> \<exists>err. promiseAll3 t r1 r2 r3 = Inl err"
  by (cases r1; cases r2; cases r3) (auto simp: promiseAll3_def rejection_def)

lemma prepareRequest_trace:
  assumes "taskId t \<noteq> []" "groupName t \<noteq> []" "devices t \<noteq> []"
      and "groupsDao_get e (groupName t) = Inr (Some grp)"
      and "ggUtils_getGroupInfo e (id' grp) = Inr ggGrp"
      and "ggUtils_getGroupVersionInfo e (Id ggGrp) (LatestVersion ggGrp) = Inr v"
  shows "log (snd (prepareRequest e t w)) = log w @
           [GroupsDaoGet (groupName t), GetGroupInfo (id' grp),
            GetGroupVersionInfo (Id ggGrp) (LatestVersion ggGrp),
            GetCoreInfo (CoreDefinitionVersionArn v),
            GetDeviceInfo (DeviceDefinitionVersionArn v),
            TemplatesDaoGet (templateName grp) (templateVersionNo grp)]"
  using assms
  by (simp add: prepareRequest_def getGroupItem_def getGroupInfo_def getGroupVersionInfo_def
        getCoreInfo_def getDeviceInfo_def getTemplateItem_def Let_def
        split: sum.splits option.splits prod.splits)

lemma prepareRequest_log:
  "\<exists>evs. log (snd (prepareRequest e t w)) = log w @ evs \<and> handled evs = []"
  by (simp add: prepareRequest_def getGroupItem_def getGroupInfo_def getGroupVersionInfo_def
        getCoreInfo_def getDeviceInfo_def getTemplateItem_def Let_def
        split: sum.splits option.splits prod.splits)

lemma prepareRequest_taskInfo:
  "prepareRequest e t w = (Inr req, w1) \<Longrightarrow> taskInfo req = markInProgress t"
  by (auto simp: prepareRequest_def getGroupItem_def getGroupInfo_def getGroupVersionInfo_def
        getCoreInfo_def getDeviceInfo_def getTemplateItem_def Let_def
        split: sum.splits option.splits prod.splits if_splits)


lemma saveGroupHandler_handle_result:
  "saveGroupHandler_handle e r w = (res, r', w') \<Longrightarrow>
     log w' = log w @ [Handle SaveGroup r] \<and> r' = requestOf (handlers e SaveGroup r)"
  by (auto simp: saveGroupHandler_handle_def Let_def requestOf_def emit_def split: outcome.splits)



lemma handleChain_log:
  "handleChain e hs r w = (res, r', w') \<Longrightarrow> \<exists>evs. log w' = log w @ evs"
proof (induction hs arbitrary: r w)
  case Nil
  then have "saveGroupHandler_handle e r w = (res, r', w')" by simp
  from saveGroupHandler_handle_result[OF this] show ?case by blast
next
  case (Cons h hs)
  show ?case
  proof (cases "handlers e h r")
    case (Continue r1)
    with Cons.prems have "handleChain e hs r1 (emit (Handle h r) w) = (res, r', w')"
      by (simp add: Let_def)
    from Cons.IH[OF this] obtain evs where "log w' = log (emit (Handle h r) w) @ evs" by blast
    then have "log w' = log w @ (Handle h r # evs)" by (simp add: emit_def)
    then show ?thesis by blast
  next
    case (Halt r1)
    with Cons.prems have "saveGroupHandler_handle e r1 (emit (Handle h r) w) = (res, r', w')"
      by (simp add: Let_def)
    from saveGroupHandler_handle_result[OF this]
    have "log w' = log w @ [Handle h r, Handle SaveGroup r1]" by (simp add: emit_def)
    then show ?thesis by blast
  next
    case (Raise msg r1)
    with Cons.prems have "log w' = log w @ [Handle h r]" by (auto simp: Let_def emit_def)
    then show ?thesis by blast
  qed
qed

lemma handleChain_first:
  assumes "handleChain e (h # hs) r w = (res, r', w')"
  shows "\<exists>evs. log w' = log w @ Handle h r # evs"
proof (cases "handlers e h r")
  case (Continue r1)
  with assms have "handleChain e hs r1 (emit (Handle h r) w) = (res, r', w')"
    by (simp add: Let_def)
  from handleChain_log[OF this] obtain evs where "log w' = log (emit (Handle h r) w) @ evs"
    by blast
  then have "log w' = log w @ Handle h r # evs" by (simp add: emit_def)
  then show ?thesis by blast
next
  case (Halt r1)
  with assms have "saveGroupHandler_handle e r1 (emit (Handle h r) w) = (res, r', w')"
    by (simp add: Let_def)
  from saveGroupHandler_handle_result[OF this]
  have "log w' = log w @ Handle h r # [Handle SaveGroup r1]" by (simp add: emit_def)
  then show ?thesis by blast
next
  case (Raise msg r1)
  with assms have "log w' = log w @ Handle h r # []" by (auto simp: Let_def emit_def)
  then show ?thesis by blast
qed




lemma associate_Inl:
  "prepareRequest e t w = (Inl err, w1) \<Longrightarrow> associateDevicesWithGroup e t w = (Inl err, w1)"
  by (simp add: associateDevicesWithGroup_def)

lemma associate_Inr:
  "prepareRequest e t w = (Inr req, w1) \<Longrightarrow>
     associateDevicesWithGroup e t w = executeChain e req w1"
  by (simp add: associateDevicesWithGroup_def)

lemma executeChain_returns:
  "getThingHandler1_handle e req w1 = (None, r', w2) \<Longrightarrow> executeChain e req w1 = (Inr (), w2)"
  by (simp add: executeChain_def)

lemma executeChain_raises:
  "getThingHandler1_handle e req w1 = (Some msg, r', w2) \<Longrightarrow>
     executeChain e req w1 = (Inr (), emit (Handle SaveGroup (recordFailure msg r')) w2)"
  by (simp add: executeChain_def saveGroupHandler_handle_def Let_def split: outcome.splits)

lemma prepareRequest_emitted:
  "prepareRequest e t w = (res, w1) \<Longrightarrow>
     \<exists>evs. log w1 = log w @ evs \<and> handled evs = []"
  using prepareRequest_log[of e t w] by simp




lemma executeChain_log: "\<exists>tl. log (snd (executeChain e r w)) = log w @ tl"
proof -
  obtain res r' w2 where c: "getThingHandler1_handle e r w = (res, r', w2)"
    by (cases "getThingHandler1_handle e r w") auto
  then have "handleChain e (GetThing1 # chainAfterGetThing1) r w = (res, r', w2)"
    by (simp add: getThingHandler1_handle_def)
  from handleChain_log[OF this] obtain evs where evs: "log w2 = log w @ evs" by blast
  show ?thesis
  proof (cases res)
    case None
    with c evs show ?thesis by (simp add: executeChain_returns)
  next
    case (Some msg)
    with c evs show ?thesis by (simp add: executeChain_raises emit_def)
  qed
qed

lemma associate_log:
  "\<exists>tl. log (snd (associateDevicesWithGroup e t w)) = log (snd (prepareRequest e t w)) @ tl"
proof (cases "prepareRequest e t w")
  case (Pair res w1)
  show ?thesis
  proof (cases res)
    case (Inl err)
    with Pair show ?thesis by (simp add: associate_Inl)
  next
    case (Inr req)
    with Pair executeChain_log[of e req w1] show ?thesis by (simp add: associate_Inr)
  qed
qed

lemma associate_lookups:
  assumes "taskId t \<noteq> []" "groupName t \<noteq> []" "devices t \<noteq> []"
      and "groupsDao_get e (groupName t) = Inr (Some grp)"
      and "ggUtils_getGroupInfo e (id' grp) = Inr ggGrp"
      and "ggUtils_getGroupVersionInfo e (Id ggGrp) (LatestVersion ggGrp) = Inr v"
  shows "take 6 (emitted w (snd (associateDevicesWithGroup e t w))) =
           [GroupsDaoGet (groupName t), GetGroupInfo (id' grp),
            GetGroupVersionInfo (Id ggGrp) (LatestVersion ggGrp),
            GetCoreInfo (CoreDefinitionVersionArn v),
            GetDeviceInfo (DeviceDefinitionVersionArn v),
            TemplatesDaoGet (templateName grp) (templateVersionNo grp)]"
proof -
  from associate_log[of e t w] obtain tl where
    "log (snd (associateDevicesWithGroup e t w)) = log (snd (prepareRequest e t w)) @ tl" by blast
  then show ?thesis
    by (simp add: prepareRequest_trace[OF assms] emitted_def)
qed

lemma associate_version_fails:
  assumes "taskId t \<noteq> []" "groupName t \<noteq> []" "devices t \<noteq> []"
      and "groupsDao_get e (groupName t) = Inr (Some grp)"
      and "ggUtils_getGroupInfo e (id' grp) = Inr ggGrp"
      and "ggUtils_getGroupVersionInfo e (Id ggGrp) (LatestVersion ggGrp) = Inl err"
  shows "associateDevicesWithGroup e t w =
           (Inl err, w\<lparr>log := log w @ [GroupsDaoGet (groupName t), GetGroupInfo (id' grp),
                                        GetGroupVersionInfo (Id ggGrp) (LatestVersion ggGrp)]\<rparr>)"
  using assms
  by (simp add: associateDevicesWithGroup_def prepareRequest_def getGroupItem_def getGroupInfo_def
        getGroupVersionInfo_def Let_def emit_def)

subsection \<open>Runs in the concrete deployment\<close>

lemma prepareRequest_env1:
  "prepareRequest (env1\<lparr>handlers := f\<rparr>) task1 world1 = (Inr request1, world1\<lparr>log := lookups1\<rparr>)"
  by (simp add: prepareRequest_def getGroupItem_def getGroupInfo_def getGroupVersionInfo_def
        getCoreInfo_def getDeviceInfo_def getTemplateItem_def Let_def promiseAll3_def
        rejection_def emit_def env1_def world1_def task1_def request1_def lookups1_def group1_def)

lemma handlers_env1: "handlers env1 h r = Continue r"
  by (simp add: env1_def)


lemma handlers_env1_twoFailures:
  "handlers env1_twoFailures h r =
     (if h = ExistingAssociation then Continue (alreadyAssociated r)
      else if h = ProvisionThing then Raise ''provisioning failed'' r
      else if h = SaveGroup then Raise ''store unavailable'' r
      else Continue r)"
  by (simp add: env1_twoFailures_def)

lemma chain_env1:
  "getThingHandler1_handle env1 r w =
     (None, r,
      w\<lparr>log := log w @ map (\<lambda>h. Handle h r) (GetThing1 # chainAfterGetThing1 @ [SaveGroup])\<rparr>)"
  by (simp add: getThingHandler1_handle_def chainAfterGetThing1_def Let_def emit_def
        saveGroupHandler_handle_def handlers_env1)




lemma chain_env1_twoFailures:
  "getThingHandler1_handle env1_twoFailures request1 w =
     (Some ''provisioning failed'', alreadyAssociated request1,
      w\<lparr>log := log w @ [Handle GetThing1 request1, Handle ExistingAssociation request1,
                         Handle ProvisionThing (alreadyAssociated request1)]\<rparr>)"
  by (simp add: getThingHandler1_handle_def chainAfterGetThing1_def Let_def emit_def
        saveGroupHandler_handle_def handlers_env1_twoFailures)


lemma log_world1: "log world1 = []"
  by (simp add: world1_def)

lemma task1_preconditions:
  "taskId task1 \<noteq> []" "groupName task1 \<noteq> []" "devices task1 \<noteq> []"
  by (simp_all add: task1_def)



lemma prepare_env1_twoFailures:
  "prepareRequest env1_twoFailures task1 world1 = (Inr request1, world1\<lparr>log := lookups1\<rparr>)"
  by (simp add: env1_twoFailures_def prepareRequest_env1)


lemma prepare_env1_task2:
  "prepareRequest env1 task2 world1 = (Inr request2, world1\<lparr>log := lookups1\<rparr>)"
  by (simp add: prepareRequest_def getGroupItem_def getGroupInfo_def getGroupVersionInfo_def
        getCoreInfo_def getDeviceInfo_def getTemplateItem_def Let_def promiseAll3_def
        rejection_def emit_def env1_def world1_def task2_def request2_def request1_def
        lookups1_def group1_def)

lemma run_env1_task2:
  "associateDevicesWithGroup env1 task2 world1 =
     (Inr (), world1\<lparr>log := lookups1
        @ map (\<lambda>h. Handle h request2) (GetThing1 # chainAfterGetThing1 @ [SaveGroup])\<rparr>)"
  by (simp add: associate_Inr[OF prepare_env1_task2] executeChain_returns[OF chain_env1])




lemma run_env1_twoFailures:
  "associateDevicesWithGroup env1_twoFailures task1 world1 =
     (Inr (), world1\<lparr>log := lookups1
        @ [Handle GetThing1 request1, Handle ExistingAssociation request1,
           Handle ProvisionThing (alreadyAssociated request1),
           Handle SaveGroup (recordFailure ''provisioning failed'' (alreadyAssociated request1))]\<rparr>)"
  by (simp add: associate_Inr[OF prepare_env1_twoFailures]
        executeChain_raises[OF chain_env1_twoFailures] emit_def)

lemma handled_lookups1: "handled lookups1 = []"
  by (simp add: lookups1_def)

lemma env1_resolves:
  "groupsDao_get env1 (groupName task1) = Inr (Some group1)"
  "ggUtils_getGroupInfo env1 (id' group1) = Inr \<lparr>Id = ''gg-1'', LatestVersion = ''v1''\<rparr>"
  "ggUtils_getGroupVersionInfo env1 ''gg-1'' ''v1'' =
     Inr \<lparr>CoreDefinitionVersionArn = ''core-arn-1'', DeviceDefinitionVersionArn = ''device-arn-1''\<rparr>"
  by (simp_all add: env1_def task1_def group1_def)

lemma env1_versionDown_resolves:
  "groupsDao_get env1_versionDown (groupName task1) = Inr (Some group1)"
  "ggUtils_getGroupInfo env1_versionDown (id' group1) = Inr \<lparr>Id = ''gg-1'', LatestVersion = ''v1''\<rparr>"
  "ggUtils_getGroupVersionInfo env1_versionDown ''gg-1'' ''v1'' = Inl (Error ''version unavailable'')"
  by (simp_all add: env1_versionDown_def env1_def task1_def group1_def)

lemma env1_version2_resolves:
  "groupsDao_get env1_version2 (groupName task1) = Inr (Some group1)"
  "ggUtils_getGroupInfo env1_version2 (id' group1) = Inr \<lparr>Id = ''gg-1'', LatestVersion = ''v1''\<rparr>"
  "ggUtils_getGroupVersionInfo env1_version2 ''gg-1'' ''v1'' =
     Inr \<lparr>CoreDefinitionVersionArn = ''core-arn-2'', DeviceDefinitionVersionArn = ''device-arn-2''\<rparr>"
  "ggUtils_getCoreInfo env1_version2 = ggUtils_getCoreInfo env1"
  by (simp_all add: env1_version2_def env1_def task1_def group1_def)

section \<open>The queue worker: lookups\<close>

text \<open>
  C7, as the specification states it: four mutually independent lookups.  In the code the
  core definition lookup is the fourth call, after the group version lookup, and its
  argument is the ARN in that lookup's answer: a different answer, a different call.
\<close>

theorem associateDevicesWithGroup_core_lookup_counterexample:
  "ggUtils_getCoreInfo env1_version2 = ggUtils_getCoreInfo env1
   \<and> ggUtils_getGroupVersionInfo env1 ''gg-1'' ''v1'' =
        Inr \<lparr>CoreDefinitionVersionArn = ''core-arn-1'', DeviceDefinitionVersionArn = ''device-arn-1''\<rparr>
   \<and> take 4 (emitted world1 (snd (associateDevicesWithGroup env1 task1 world1)))
        = [GroupsDaoGet ''group-1'', GetGroupInfo ''gg-1'', GetGroupVersionInfo ''gg-1'' ''v1'',
           GetCoreInfo ''core-arn-1'']
   \<and> ggUtils_getGroupVersionInfo env1_version2 ''gg-1'' ''v1'' =
        Inr \<lparr>CoreDefinitionVersionArn = ''core-arn-2'', DeviceDefinitionVersionArn = ''device-arn-2''\<rparr>
   \<and> take 4 (emitted world1 (snd (associateDevicesWithGroup env1_version2 task1 world1)))
        = [GroupsDaoGet ''group-1'', GetGroupInfo ''gg-1'', GetGroupVersionInfo ''gg-1'' ''v1'',
           GetCoreInfo ''core-arn-2'']"
proof -
  have a: "take 6 (emitted world1 (snd (associateDevicesWithGroup env1 task1 world1))) =
       [GroupsDaoGet ''group-1'', GetGroupInfo ''gg-1'', GetGroupVersionInfo ''gg-1'' ''v1'',
        GetCoreInfo ''core-arn-1'', GetDeviceInfo ''device-arn-1'', TemplatesDaoGet ''tmpl'' 1]"
    using associate_lookups[OF task1_preconditions env1_resolves(1,2), of _ world1] env1_resolves(3)
    by (simp add: task1_def group1_def)
  have b: "take 6 (emitted world1 (snd (associateDevicesWithGroup env1_version2 task1 world1))) =
       [GroupsDaoGet ''group-1'', GetGroupInfo ''gg-1'', GetGroupVersionInfo ''gg-1'' ''v1'',
        GetCoreInfo ''core-arn-2'', GetDeviceInfo ''device-arn-2'', TemplatesDaoGet ''tmpl'' 1]"
    using associate_lookups[OF task1_preconditions env1_version2_resolves(1,2), of _ world1]
          env1_version2_resolves(3)
    by (simp add: task1_def group1_def)
  have t: "take 4 xs = take 4 (take 6 xs)" for xs :: "event list" by simp
  show ?thesis
    by (simp add: env1_resolves env1_version2_resolves t[of "emitted world1 _"] a b del: take_take)
qed

text \<open>
  C7, amended: the lookup of the group's latest version comes first and alone.  If it
  fails, the worker fails with its error and issues none of the other three lookups.  If
  it succeeds, the core definition and device definition lookups are issued with the two
  ARNs of its answer, and the template lookup with the group's template name and version:
  all three are issued, in this order, whatever any of them answers, so none of the three
  consumes another's result.
\<close>

theorem associateDevicesWithGroup_lookup_dependencies:
  assumes "taskId t \<noteq> []" "groupName t \<noteq> []" "devices t \<noteq> []"
      and "groupsDao_get e (groupName t) = Inr (Some grp)"
      and "ggUtils_getGroupInfo e (id' grp) = Inr ggGrp"
  shows "(ggUtils_getGroupVersionInfo e (Id ggGrp) (LatestVersion ggGrp) = Inl err \<longrightarrow>
            fst (associateDevicesWithGroup e t w) = Inl err
          \<and> emitted w (snd (associateDevicesWithGroup e t w)) =
              [GroupsDaoGet (groupName t), GetGroupInfo (id' grp),
               GetGroupVersionInfo (Id ggGrp) (LatestVersion ggGrp)])
       \<and> (ggUtils_getGroupVersionInfo e (Id ggGrp) (LatestVersion ggGrp) = Inr v \<longrightarrow>
            take 6 (emitted w (snd (associateDevicesWithGroup e t w))) =
              [GroupsDaoGet (groupName t), GetGroupInfo (id' grp),
               GetGroupVersionInfo (Id ggGrp) (LatestVersion ggGrp),
               GetCoreInfo (CoreDefinitionVersionArn v),
               GetDeviceInfo (DeviceDefinitionVersionArn v),
               TemplatesDaoGet (templateName grp) (templateVersionNo grp)])"
proof (intro conjI impI)
  assume f: "ggUtils_getGroupVersionInfo e (Id ggGrp) (LatestVersion ggGrp) = Inl err"
  note r = associate_version_fails[OF assms f, of w]
  show "fst (associateDevicesWithGroup e t w) = Inl err" by (simp add: r)
  show "emitted w (snd (associateDevicesWithGroup e t w)) =
              [GroupsDaoGet (groupName t), GetGroupInfo (id' grp),
               GetGroupVersionInfo (Id ggGrp) (LatestVersion ggGrp)]"
    by (simp add: r emitted_def)
next
  assume "ggUtils_getGroupVersionInfo e (Id ggGrp) (LatestVersion ggGrp) = Inr v"
  from associate_lookups[OF assms this]
  show "take 6 (emitted w (snd (associateDevicesWithGroup e t w))) =
              [GroupsDaoGet (groupName t), GetGroupInfo (id' grp),
               GetGroupVersionInfo (Id ggGrp) (LatestVersion ggGrp),
               GetCoreInfo (CoreDefinitionVersionArn v),
               GetDeviceInfo (DeviceDefinitionVersionArn v),
               TemplatesDaoGet (templateName grp) (templateVersionNo grp)]" .
qed

theorem associateDevicesWithGroup_lookup_dependencies_witness:
  "taskId task1 \<noteq> [] \<and> groupName task1 \<noteq> [] \<and> devices task1 \<noteq> []
   \<and> groupsDao_get env1 (groupName task1) = Inr (Some group1)
   \<and> ggUtils_getGroupInfo env1 (id' group1) = Inr \<lparr>Id = ''gg-1'', LatestVersion = ''v1''\<rparr>
   \<and> ggUtils_getGroupVersionInfo env1 ''gg-1'' ''v1'' =
        Inr \<lparr>CoreDefinitionVersionArn = ''core-arn-1'', DeviceDefinitionVersionArn = ''device-arn-1''\<rparr>
   \<and> take 6 (emitted world1 (snd (associateDevicesWithGroup env1 task1 world1))) = lookups1
   \<and> groupsDao_get env1_versionDown (groupName task1) = Inr (Some group1)
   \<and> ggUtils_getGroupInfo env1_versionDown (id' group1) = Inr \<lparr>Id = ''gg-1'', LatestVersion = ''v1''\<rparr>
   \<and> ggUtils_getGroupVersionInfo env1_versionDown ''gg-1'' ''v1'' = Inl (Error ''version unavailable'')
   \<and> fst (associateDevicesWithGroup env1_versionDown task1 world1) = Inl (Error ''version unavailable'')
   \<and> emitted world1 (snd (associateDevicesWithGroup env1_versionDown task1 world1))
        = [GroupsDaoGet ''group-1'', GetGroupInfo ''gg-1'', GetGroupVersionInfo ''gg-1'' ''v1'']"
proof -
  have up: "take 6 (emitted world1 (snd (associateDevicesWithGroup env1 task1 world1))) = lookups1"
    using associateDevicesWithGroup_lookup_dependencies
            [OF task1_preconditions env1_resolves(1,2), of undefined world1
               "\<lparr>CoreDefinitionVersionArn = ''core-arn-1'',
                 DeviceDefinitionVersionArn = ''device-arn-1''\<rparr>"]
    by (simp add: env1_resolves lookups1_def) (simp add: task1_def group1_def)
  have down: "fst (associateDevicesWithGroup env1_versionDown task1 world1)
                = Inl (Error ''version unavailable'')
            \<and> emitted world1 (snd (associateDevicesWithGroup env1_versionDown task1 world1))
                = [GroupsDaoGet ''group-1'', GetGroupInfo ''gg-1'',
                   GetGroupVersionInfo ''gg-1'' ''v1'']"
    using associateDevicesWithGroup_lookup_dependencies
            [OF task1_preconditions env1_versionDown_resolves(1,2),
             of "Error ''version unavailable''" world1 undefined]
    by (simp add: env1_versionDown_resolves) (simp add: task1_def group1_def)
  show ?thesis
    using up down by (simp add: task1_preconditions env1_resolves env1_versionDown_resolves)
qed

section \<open>The queue worker: the chain and its failure path\<close>

text \<open>
  C6: whenever a run of \<open>associateDevicesWithGroup\<close> on a task invokes a handler at all,
  the first one invoked is the first GetThing handler, and the task of the request it
  receives is the input task with its status set to InProgress and the status of every one
  of its devices set to InProgress: the same devices, in the same order, nothing else
  changed.  So the task status and every device's status are InProgress by then.
\<close>

theorem associateDevicesWithGroup_marks_in_progress:
  assumes "handled (emitted w (snd (associateDevicesWithGroup e t w))) = (h, req) # rest"
  shows "h = GetThing1
       \<and> DeviceTaskSummary.status (taskInfo req) = InProgress
       \<and> (\<forall>d \<in> set (devices (taskInfo req)). DeviceItem.status d = Some InProgress)
       \<and> taskInfo req
           = t\<lparr>status := InProgress,
               devices := map (\<lambda>d. d\<lparr>DeviceItem.status := Some InProgress\<rparr>) (devices t)\<rparr>
       \<and> length (devices (taskInfo req)) = length (devices t)
       \<and> (\<forall>i < length (devices t).
             devices (taskInfo req) ! i = (devices t ! i)\<lparr>DeviceItem.status := Some InProgress\<rparr>)"
proof -
  obtain res w1 where prep: "prepareRequest e t w = (res, w1)"
    by (cases "prepareRequest e t w")
  from prepareRequest_emitted[OF prep] obtain evsP where
    evsP: "log w1 = log w @ evsP" "handled evsP = []" by blast
  show ?thesis
  proof (cases res)
    case (Inl err)
    with prep have "associateDevicesWithGroup e t w = (Inl err, w1)" by (simp add: associate_Inl)
    then have "emitted w (snd (associateDevicesWithGroup e t w)) = evsP"
      using evsP(1) by (simp add: emitted_def)
    with assms evsP(2) show ?thesis by simp
  next
    case (Inr req0)
    with prep have p: "prepareRequest e t w = (Inr req0, w1)" by simp
    obtain r r' w2 where c: "handleChain e (GetThing1 # chainAfterGetThing1) req0 w1 = (r, r', w2)"
      by (cases "handleChain e (GetThing1 # chainAfterGetThing1) req0 w1") auto
    from handleChain_first[OF c] obtain evsC where
      evsC: "log w2 = log w1 @ Handle GetThing1 req0 # evsC" by blast
    have "\<exists>tl. log (snd (associateDevicesWithGroup e t w)) = log w2 @ tl"
    proof (cases r)
      case None
      with c show ?thesis
        by (simp add: associate_Inr[OF p] executeChain_returns getThingHandler1_handle_def)
    next
      case (Some msg)
      with c show ?thesis
        by (simp add: associate_Inr[OF p] executeChain_raises getThingHandler1_handle_def emit_def)
    qed
    then obtain tl where "log (snd (associateDevicesWithGroup e t w)) = log w2 @ tl" by blast
    then have "emitted w (snd (associateDevicesWithGroup e t w))
                 = evsP @ Handle GetThing1 req0 # evsC @ tl"
      using evsP(1) evsC by (simp add: emitted_def)
    with assms evsP(2) have hr: "h = GetThing1" "req = req0" by (simp_all add: handled_append)
    have eq: "taskInfo req
           = t\<lparr>status := InProgress,
               devices := map (\<lambda>d. d\<lparr>DeviceItem.status := Some InProgress\<rparr>) (devices t)\<rparr>"
      using prepareRequest_taskInfo[OF p] hr(2) by (simp add: markInProgress_def)
    have dv: "devices (taskInfo req)
                = map (\<lambda>d. d\<lparr>DeviceItem.status := Some InProgress\<rparr>) (devices t)"
      by (simp add: eq)
    have "DeviceTaskSummary.status (taskInfo req) = InProgress" by (simp add: eq)
    moreover have "\<forall>d \<in> set (devices (taskInfo req)). DeviceItem.status d = Some InProgress"
      by (auto simp: dv)
    moreover have "length (devices (taskInfo req)) = length (devices t)" by (simp add: dv)
    moreover have "\<forall>i < length (devices t).
             devices (taskInfo req) ! i = (devices t ! i)\<lparr>DeviceItem.status := Some InProgress\<rparr>"
      by (simp add: dv)
    ultimately show ?thesis using hr(1) eq by blast
  qed
qed

theorem associateDevicesWithGroup_marks_in_progress_witness:
  "handled (emitted world1 (snd (associateDevicesWithGroup env1 task2 world1)))
     = (GetThing1, request2) # map (\<lambda>h. (h, request2)) (chainAfterGetThing1 @ [SaveGroup])
   \<and> map DeviceItem.status (devices task2) = [Some Waiting, None]
   \<and> DeviceTaskSummary.status (taskInfo request2) = InProgress
   \<and> map DeviceItem.status (devices (taskInfo request2)) = [Some InProgress, Some InProgress]
   \<and> map thingName (devices (taskInfo request2)) = map thingName (devices task2)"
proof -
  have h: "handled (emitted world1 (snd (associateDevicesWithGroup env1 task2 world1)))
     = (GetThing1, request2) # map (\<lambda>h. (h, request2)) (chainAfterGetThing1 @ [SaveGroup])"
    by (simp add: run_env1_task2 emitted_def log_world1 handled_append handled_lookups1
          chainAfterGetThing1_def)
  have t2: "devices task2 = [device1\<lparr>DeviceItem.status := Some Waiting\<rparr>, device2]"
    by (simp add: task2_def)
  have s2: "map DeviceItem.status (devices task2) = [Some Waiting, None]"
    by (simp add: t2 device2_def)
  from associateDevicesWithGroup_marks_in_progress [OF h]
  have st: "DeviceTaskSummary.status (taskInfo request2) = InProgress"
    and eq: "taskInfo request2
           = task2\<lparr>status := InProgress,
               devices := map (\<lambda>d. d\<lparr>DeviceItem.status := Some InProgress\<rparr>) (devices task2)\<rparr>"
    by blast+
  have dv: "devices (taskInfo request2)
              = map (\<lambda>d. d\<lparr>DeviceItem.status := Some InProgress\<rparr>) (devices task2)"
    by (simp add: eq)
  have a: "map DeviceItem.status (devices (taskInfo request2)) = [Some InProgress, Some InProgress]"
    by (simp add: dv t2)
  have b: "map thingName (devices (taskInfo request2)) = map thingName (devices task2)"
    by (simp add: dv t2)
  show ?thesis using h s2 st a b by blast
qed

text \<open>
  C3: when the chain raises, the request handed to SaveGroup by the failure path has group
  task status Failure; its status message is the message of the error raised unless a
  failure was already recorded, and in that case the request is handed on exactly as the
  handlers left it, so the message of the first failure stays.
\<close>

theorem associateDevicesWithGroup_first_failure_wins:
  assumes prep: "prepareRequest e t w = (Inr req, w1)"
      and chain: "getThingHandler1_handle e req w1 = (Some msg, req', w2)"
  shows "\<exists>r''. last (log (snd (associateDevicesWithGroup e t w))) = Handle SaveGroup r''
           \<and> taskStatus (group r'') = Some Failure
           \<and> GroupItem.statusMessage (group r'')
               = (if taskStatus (group req') = Some Failure
                  then GroupItem.statusMessage (group req') else Some msg)
           \<and> (taskStatus (group req') = Some Failure \<longrightarrow> r'' = req')
           \<and> taskInfo r'' = taskInfo req'"
proof -
  have "associateDevicesWithGroup e t w
          = (Inr (), emit (Handle SaveGroup (recordFailure msg req')) w2)"
    using chain by (simp add: associate_Inr[OF prep] executeChain_raises)
  then have "last (log (snd (associateDevicesWithGroup e t w)))
               = Handle SaveGroup (recordFailure msg req')"
    by (simp add: emit_def)
  then show ?thesis by (intro exI[of _ "recordFailure msg req'"]) (simp add: recordFailure_def)
qed

theorem associateDevicesWithGroup_first_failure_wins_witness:
  "prepareRequest env1_twoFailures task1 world1 = (Inr request1, world1\<lparr>log := lookups1\<rparr>)
   \<and> fst (getThingHandler1_handle env1_twoFailures request1 (world1\<lparr>log := lookups1\<rparr>))
       = Some ''provisioning failed''
   \<and> (\<exists>r''. last (log (snd (associateDevicesWithGroup env1_twoFailures task1 world1)))
               = Handle SaveGroup r''
          \<and> taskStatus (group r'') = Some Failure
          \<and> GroupItem.statusMessage (group r'') = Some ''already associated'')"
  using associateDevicesWithGroup_first_failure_wins
          [OF prepare_env1_twoFailures chain_env1_twoFailures]
  by (simp add: prepare_env1_twoFailures chain_env1_twoFailures alreadyAssociated_def)

text \<open>
  C8: when the chain raises, \<open>associateDevicesWithGroup\<close> issues the call of SaveGroup and
  returns normally.  Nothing in its result or in what it does depends on what that call
  returns or throws: this holds for every SaveGroup handler, one that throws included.
\<close>

theorem associateDevicesWithGroup_ignores_terminal_save:
  assumes prep: "prepareRequest e t w = (Inr req, w1)"
      and chain: "getThingHandler1_handle e req w1 = (Some msg, req', w2)"
  shows "fst (associateDevicesWithGroup e t w) = Inr ()
       \<and> emitted w2 (snd (associateDevicesWithGroup e t w))
           = [Handle SaveGroup (recordFailure msg req')]"
proof -
  have "associateDevicesWithGroup e t w
          = (Inr (), emit (Handle SaveGroup (recordFailure msg req')) w2)"
    using chain by (simp add: associate_Inr[OF prep] executeChain_raises)
  then show ?thesis by (simp add: emit_def emitted_def)
qed

theorem associateDevicesWithGroup_ignores_terminal_save_witness:
  "prepareRequest env1_twoFailures task1 world1 = (Inr request1, world1\<lparr>log := lookups1\<rparr>)
   \<and> fst (getThingHandler1_handle env1_twoFailures request1 (world1\<lparr>log := lookups1\<rparr>))
       = Some ''provisioning failed''
   \<and> handlers env1_twoFailures SaveGroup
         (recordFailure ''provisioning failed'' (alreadyAssociated request1))
       = Raise ''store unavailable''
           (recordFailure ''provisioning failed'' (alreadyAssociated request1))
   \<and> fst (associateDevicesWithGroup env1_twoFailures task1 world1) = Inr ()"
  using associateDevicesWithGroup_ignores_terminal_save
          [OF prepare_env1_twoFailures chain_env1_twoFailures]
  by (simp add: prepare_env1_twoFailures chain_env1_twoFailures handlers_env1_twoFailures)




end
